theory Spec2Isabelle
  imports Main "HOL-Library.Sublist" "HOL-Library.AList" "HOL-Library.Log_Nat"
begin

section \<open>Data model\<close>

text \<open>
  A task record as the remote store returns it and as \<^verbatim>\<open>TaskList.js\<close> reads it
  (\<^verbatim>\<open>task.id\<close>, \<^verbatim>\<open>task.title\<close>, \<^verbatim>\<open>task.description\<close>, \<^verbatim>\<open>task.status\<close>,
  \<^verbatim>\<open>task.priority\<close>). The identifier is opaque (a type variable, compared with
  \<^verbatim>\<open>===\<close>); every other field is a string. A string is a list of characters, each
  a code point from U+0000 to U+00FF.
\<close>

record 'i task =
  id' :: 'i
  title :: string
  description :: string
  status :: string
  priority :: string
  createdAt :: string

text \<open>
  A partial record (the form's payload, an update patch) is a JavaScript object literal:
  an association list of field names and values in insertion order. The object spread
  \<^verbatim>\<open>{...taskData, createdAt: v}\<close> is \<^const>\<open>AList.update\<close>: an existing key keeps its
  place and takes the new value, a new key is appended.
\<close>

type_synonym fields = "(string \<times> string) list"

section \<open>Transport client (tasksApi.js)\<close>

text \<open>
  What a call can throw: \<^verbatim>\<open>new Error(message)\<close> of the client itself, the
  \<^verbatim>\<open>SyntaxError\<close> with which \<^verbatim>\<open>response.json()\<close> rejects a body that is not JSON, and
  the \<^verbatim>\<open>TypeError\<close> with which \<^verbatim>\<open>fetch\<close> rejects when no response arrives.
\<close>

datatype js_error = Error string | SyntaxError | TypeError

text \<open>
  A response: its \<^verbatim>\<open>ok\<close> flag (status in 200..299), its body as text, and the body
  parsed as JSON (\<open>None\<close> when the body is not valid JSON).
\<close>

record 'a response =
  ok :: bool
  text' :: string
  json :: "'a option"

text \<open>The four requests the client issues against \<^verbatim>\<open>TASKS_ENDPOINT\<close>.\<close>

datatype 'i request =
    GET_tasks
  | POST_tasks fields
  | PATCH_task 'i fields
  | DELETE_task 'i

text \<open>The outcome of \<^verbatim>\<open>await fetch(...)\<close>: rejected, or resolved with a response.\<close>

type_synonym 'a fetched = "js_error + 'a response"

definition handleResponse :: "'a response \<Rightarrow> js_error + 'a" where
  "handleResponse response =
     (if \<not> ok response then
        (let message = text' response
         in Inl (Error (if message \<noteq> [] then message else ''Request failed'')))
      else (case json response of None \<Rightarrow> Inl SyntaxError | Some v \<Rightarrow> Inr v))"

text \<open>
  Each operation is the request it issues paired with its result, given what
  \<^verbatim>\<open>fetch\<close> produced for that request.
\<close>

definition fetchTasksFromApi :: "'a fetched \<Rightarrow> 'i request \<times> (js_error + 'a)" where
  "fetchTasksFromApi fetched =
     (GET_tasks, case fetched of Inl e \<Rightarrow> Inl e | Inr response \<Rightarrow> handleResponse response)"

definition createTaskOnServer :: "fields \<Rightarrow> 'a fetched \<Rightarrow> 'i request \<times> (js_error + 'a)" where
  "createTaskOnServer taskData fetched =
     (POST_tasks taskData,
      case fetched of Inl e \<Rightarrow> Inl e | Inr response \<Rightarrow> handleResponse response)"

definition updateTaskOnServer ::
    "'i \<Rightarrow> fields \<Rightarrow> 'a fetched \<Rightarrow> 'i request \<times> (js_error + 'a)" where
  "updateTaskOnServer taskId updates fetched =
     (PATCH_task taskId updates,
      case fetched of Inl e \<Rightarrow> Inl e | Inr response \<Rightarrow> handleResponse response)"

definition deleteTaskOnServer :: "'i \<Rightarrow> 'a fetched \<Rightarrow> 'i request \<times> (js_error + bool)" where
  "deleteTaskOnServer taskId fetched =
     (DELETE_task taskId,
      case fetched of
        Inl e \<Rightarrow> Inl e
      | Inr response \<Rightarrow>
          (if \<not> ok response then
             (let message = text' response
              in Inl (Error (if message \<noteq> [] then message else ''Failed to delete task'')))
           else Inr True))"

section \<open>Task collection controller (TaskList.js)\<close>

record 'i state =
  tasks :: "'i task list"
  loading :: bool
  error :: "string option"
  showForm :: bool
  editingTask :: "'i task option"
  filter' :: string
  searchTerm :: string

text \<open>
  What an operation does besides changing the state, in program order: requests sent,
  \<^verbatim>\<open>window.confirm\<close>, \<^verbatim>\<open>alert\<close> and \<^verbatim>\<open>console.error\<close>.
\<close>

datatype 'i effect =
    Request "'i request"
  | Confirm string
  | Alert string
  | ConsoleError string js_error

text \<open>
  Every operation runs from the state it is called in to the state after its last
  \<^verbatim>\<open>setState\<close>, with the environment's answers as arguments: what \<^verbatim>\<open>fetch\<close>
  produced, the clock reading of \<^verbatim>\<open>new Date().toISOString()\<close>, the answer of
  \<^verbatim>\<open>window.confirm\<close>.
\<close>

definition fetchTasks :: "'i state \<Rightarrow> 'i task list fetched \<Rightarrow> 'i state \<times> 'i effect list" where
  "fetchTasks st fetched =
     (let st1 = st\<lparr>loading := True, error := None\<rparr>;
          (req, res) = fetchTasksFromApi fetched
      in case res of
           Inr apiTasks \<Rightarrow>
             (st1\<lparr>tasks := apiTasks, loading := False\<rparr>, [Request req])
         | Inl err \<Rightarrow>
             (st1\<lparr>error := Some ''Failed to fetch tasks. Please try again.'', loading := False\<rparr>,
              [Request req, ConsoleError ''Error fetching tasks:'' err]))"

definition createTask ::
    "'i state \<Rightarrow> fields \<Rightarrow> string \<Rightarrow> 'i task fetched \<Rightarrow> 'i state \<times> 'i effect list" where
  "createTask st taskData now fetched =
     (let st1 = st\<lparr>error := None\<rparr>;
          payload = AList.update ''createdAt'' now taskData;
          (req, res) = createTaskOnServer payload fetched
      in case res of
           Inr newTask \<Rightarrow>
             (st1\<lparr>tasks := newTask # tasks st1, showForm := False\<rparr>,
              [Request req, Alert ''Task created successfully!''])
         | Inl err \<Rightarrow>
             (st1\<lparr>error := Some ''Failed to create task. Please try again.''\<rparr>,
              [Request req, ConsoleError ''Error creating task:'' err]))"

definition updateTask ::
    "'i state \<Rightarrow> 'i \<Rightarrow> fields \<Rightarrow> 'i task fetched \<Rightarrow> 'i state \<times> 'i effect list" where
  "updateTask st i updatedData fetched =
     (let st1 = st\<lparr>error := None\<rparr>;
          (req, res) = updateTaskOnServer i updatedData fetched
      in case res of
           Inr updatedTask \<Rightarrow>
             (st1\<lparr>tasks := map (\<lambda>task. if id' task = i then updatedTask else task) (tasks st1),
                  editingTask := None, showForm := False\<rparr>,
              [Request req, Alert ''Task updated successfully!''])
         | Inl err \<Rightarrow>
             (st1\<lparr>error := Some ''Failed to update task. Please try again.''\<rparr>,
              [Request req, ConsoleError ''Error updating task:'' err]))"

definition deleteTask ::
    "'i state \<Rightarrow> 'i \<Rightarrow> bool \<Rightarrow> 'a fetched \<Rightarrow> 'i state \<times> 'i effect list" where
  "deleteTask st i confirmed fetched =
     (let st1 = st\<lparr>error := None\<rparr>;
          asked = Confirm ''Are you sure you want to delete this task?''
      in if confirmed then
           (let (req, res) = deleteTaskOnServer i fetched
            in case res of
                 Inr _ \<Rightarrow>
                   (st1\<lparr>tasks := filter (\<lambda>task. id' task \<noteq> i) (tasks st1)\<rparr>,
                    [asked, Request req, Alert ''Task deleted successfully!''])
               | Inl err \<Rightarrow>
                   (st1\<lparr>error := Some ''Failed to delete task. Please try again.''\<rparr>,
                    [asked, Request req, ConsoleError ''Error deleting task:'' err]))
         else (st1, [asked]))"

definition toggleTaskStatus ::
    "'i state \<Rightarrow> 'i \<Rightarrow> 'i task fetched \<Rightarrow> 'i state \<times> 'i effect list" where
  "toggleTaskStatus st i fetched =
     (case find (\<lambda>t. id' t = i) (tasks st) of
        Some task \<Rightarrow>
          updateTask st i
            [(''status'', if status task = ''completed'' then ''pending'' else ''completed'')]
            fetched
      | None \<Rightarrow> (st, []))"

subsection \<open>The filtered view\<close>

text \<open>
  \<^verbatim>\<open>String.prototype.toLowerCase\<close>. A character is a code point from U+0000 to
  U+00FF. The capital letters among these are A to Z, U+00C0 to U+00D6 and U+00D8 to
  U+00DE; the small letter of each lies 32 code points above it, and every other
  character is its own lower case. No character of this range is mapped depending on its
  neighbours, so a string is lower-cased character by character.
\<close>

definition toLowerCase_char :: "char \<Rightarrow> char" where
  "toLowerCase_char c =
     (let n = (of_char c :: nat)
      in if (65 \<le> n \<and> n \<le> 90) \<or> (192 \<le> n \<and> n \<le> 214) \<or> (216 \<le> n \<and> n \<le> 222)
         then char_of (n + 32) else c)"

definition toLowerCase :: "string \<Rightarrow> string" where
  "toLowerCase s = map toLowerCase_char s"

text \<open>
  \<^verbatim>\<open>String.prototype.includes\<close>: the search string is looked for at every start
  position of the receiver, the end included (where only the empty string matches).
\<close>

fun includes' :: "string \<Rightarrow> string \<Rightarrow> bool" where
  "includes' [] searchString = (searchString = [])"
| "includes' (c # s) searchString =
     (prefix searchString (c # s) \<or> includes' s searchString)"

definition matchesFilter :: "string \<Rightarrow> 'i task \<Rightarrow> bool" where
  "matchesFilter f task \<longleftrightarrow> f = ''all'' \<or> status task = f \<or> priority task = f"

definition matchesSearch :: "string \<Rightarrow> 'i task \<Rightarrow> bool" where
  "matchesSearch s task \<longleftrightarrow>
     includes' (toLowerCase (title task)) (toLowerCase s) \<or>
     includes' (toLowerCase (description task)) (toLowerCase s)"

definition filteredTasks :: "'i state \<Rightarrow> 'i task list" where
  "filteredTasks st =
     filter (\<lambda>task. matchesFilter (filter' st) task \<and> matchesSearch (searchTerm st) task)
       (tasks st)"

section \<open>Statistics view (Stats component)\<close>

subsection \<open>JavaScript numbers\<close>

text \<open>
  A JavaScript Number is an IEEE 754 binary64 value. The finite ones are rationals
  with a 53-bit significand; every arithmetic operation returns the exact result
  rounded to the nearest such value, ties to the even significand. The statistics
  only divide one array length by another and multiply the quotient by 100, so the
  operands are non-negative and the results lie between \<open>2\<^sup>-\<^sup>3\<^sup>2\<close> and 100 (or are 0):
  the exponent range of binary64 (overflow, subnormal numbers) is never reached and is
  not modelled.
\<close>

datatype number = Finite rat | PosInfinity | NaN

definition pow2 :: "int \<Rightarrow> rat" where
  "pow2 e = (if 0 \<le> e then 2 ^ nat e else 1 / 2 ^ nat (- e))"

text \<open>The integer nearest to \<open>x\<close>, the even one of the two when \<open>x\<close> lies halfway.\<close>

definition roundTiesToEven :: "rat \<Rightarrow> int" where
  "roundTiesToEven x =
     (let f = \<lfloor>x\<rfloor>; d = x - of_int f
      in if d < 1 / 2 then f else if 1 / 2 < d then f + 1 else if even f then f else f + 1)"

text \<open>
  The binary exponent \<open>e\<close> of a non-zero \<open>x\<close>, with \<open>2\<^sup>e \<le> \<bar>x\<bar> < 2\<^sup>e\<^sup>+\<^sup>1\<close>, from the bit
  lengths of numerator and denominator.
\<close>

definition exponent :: "rat \<Rightarrow> int" where
  "exponent x =
     (let (p, q) = quotient_of \<bar>x\<bar>; g = bitlen p - bitlen q
      in if \<bar>x\<bar> < pow2 g then g - 1 else g)"

text \<open>Rounding to binary64: the significand \<open>x / 2\<^sup>e\<^sup>-\<^sup>5\<^sup>2\<close> is rounded to an integer.\<close>

definition fl :: "rat \<Rightarrow> rat" where
  "fl x = (if x = 0 then 0
           else (let u = pow2 (exponent x - 52) in of_int (roundTiesToEven (x / u)) * u))"

text \<open>
  \<^verbatim>\<open>a / b\<close> for two array lengths (\<^verbatim>\<open>0 / 0\<close> is \<^verbatim>\<open>NaN\<close>, \<^verbatim>\<open>a / 0\<close> is \<^verbatim>\<open>Infinity\<close>),
  \<^verbatim>\<open>x * n\<close> for a non-negative integer literal \<open>n\<close>, and \<^verbatim>\<open>Math.round\<close>, which
  returns the nearest integer and, of two equally near, the one closer to \<open>+\<infinity>\<close>.
\<close>

definition js_div :: "nat \<Rightarrow> nat \<Rightarrow> number" where
  "js_div a b =
     (if b = 0 then (if a = 0 then NaN else PosInfinity)
      else Finite (fl (of_nat a / of_nat b)))"

definition js_mul :: "number \<Rightarrow> nat \<Rightarrow> number" where
  "js_mul x n =
     (case x of
        Finite r \<Rightarrow> Finite (fl (r * of_nat n))
      | PosInfinity \<Rightarrow> (if n = 0 then NaN else PosInfinity)
      | NaN \<Rightarrow> NaN)"

definition Math_round :: "number \<Rightarrow> number" where
  "Math_round x =
     (case x of
        Finite r \<Rightarrow> Finite (of_int \<lfloor>r + 1 / 2\<rfloor>)
      | PosInfinity \<Rightarrow> PosInfinity
      | NaN \<Rightarrow> NaN)"

subsection \<open>The statistics\<close>

record stats =
  total :: nat
  completed :: nat
  pending :: int
  completionRate :: number

record stats_state =
  stats :: stats
  loading' :: bool
  error' :: "string option"

text \<open>The computation between the fetch and \<^verbatim>\<open>setStats\<close> in \<^verbatim>\<open>fetchStats\<close>.\<close>

definition computeStats :: "'i task list \<Rightarrow> stats" where
  "computeStats ts =
     (let total = length ts;
          completed = length (filter (\<lambda>task. status task = ''completed'') ts);
          pending = int total - int completed;
          completionRate =
            (if total > 0 then Math_round (js_mul (js_div completed total) 100) else Finite 0)
      in \<lparr>total = total, completed = completed, pending = pending,
          completionRate = completionRate\<rparr>)"

definition fetchStats ::
    "stats_state \<Rightarrow> 'i task list fetched \<Rightarrow> stats_state \<times> 'i effect list" where
  "fetchStats st fetched =
     (let st1 = st\<lparr>error' := None\<rparr>;
          (req, res) = fetchTasksFromApi fetched
      in case res of
           Inr ts \<Rightarrow> (st1\<lparr>stats := computeStats ts, loading' := False\<rparr>, [Request req])
         | Inl err \<Rightarrow>
             (st1\<lparr>error' := Some ''Unable to load statistics. Please try again later.'',
                  loading' := False\<rparr>,
              [Request req, ConsoleError ''Error fetching stats:'' err]))"

section \<open>Sample data\<close>

text \<open>
  Concrete records and states for the checks at explicit inputs: a task with the given
  id, title, description, status and priority; a controller state with the given list,
  error, filter selector and search string; and a list of \<open>t\<close> tasks with ids
  \<open>0, \<dots>, t - 1\<close> of which the first \<open>c\<close> are completed.
\<close>

definition mk_task :: "nat \<Rightarrow> string \<Rightarrow> string \<Rightarrow> string \<Rightarrow> string \<Rightarrow> nat task" where
  "mk_task n t d s p =
     \<lparr>id' = n, title = t, description = d, status = s, priority = p,
      createdAt = ''2024-05-01T09:00:00.000Z''\<rparr>"

definition mk_state :: "nat task list \<Rightarrow> string option \<Rightarrow> string \<Rightarrow> string \<Rightarrow> nat state" where
  "mk_state ts e f s =
     \<lparr>tasks = ts, loading = False, error = e, showForm = False, editingTask = None,
      filter' = f, searchTerm = s\<rparr>"

definition sample_tasks :: "nat \<Rightarrow> nat \<Rightarrow> nat task list" where
  "sample_tasks c t =
     map (\<lambda>n. mk_task n ''task'' [] (if n < c then ''completed'' else ''pending'') ''low'')
       [0..<t]"

section \<open>Auxiliary facts\<close>

subsection \<open>Substring search\<close>







text \<open>
  Lower-casing is idempotent, so a match depends only on the lower-cased strings: the
  case of the search string and of the title and description is immaterial.
\<close>

lemma toLowerCase_char_idem: "toLowerCase_char (toLowerCase_char c) = toLowerCase_char c"
proof -
  define n where "n = (of_char c :: nat)"
  show ?thesis
  proof (cases "(65 \<le> n \<and> n \<le> 90) \<or> (192 \<le> n \<and> n \<le> 214) \<or> (216 \<le> n \<and> n \<le> 222)")
    case True
    then have "of_char (char_of (n + 32)) = n + 32"
      by (auto simp: of_char_of)
    with True show ?thesis
      by (auto simp: toLowerCase_char_def Let_def n_def [symmetric])
  next
    case False
    then show ?thesis
      by (auto simp: toLowerCase_char_def Let_def n_def [symmetric])
  qed
qed

lemma toLowerCase_idem: "toLowerCase (toLowerCase s) = toLowerCase s"
  by (simp add: toLowerCase_def toLowerCase_char_idem)

lemma matchesSearch_case:
  "matchesSearch (toLowerCase s)
     (task\<lparr>title := toLowerCase (title task), description := toLowerCase (description task)\<rparr>)
   = matchesSearch s task"
  by (simp add: matchesSearch_def toLowerCase_idem)

lemma count_list_filter_le: "count_list (filter P xs) x \<le> count_list xs x"
  by (induction xs) auto

subsection \<open>Rounding to binary64\<close>

text \<open>
  The exponent brackets the number, so rounding the significand to an integer moves a
  positive number by at most half a unit in the last place, a relative error of at most
  \<open>2\<^sup>-\<^sup>5\<^sup>3\<close>.
\<close>

lemma pow2_powi: "pow2 e = 2 powi e"
  by (simp add: pow2_def power_int_def inverse_eq_divide power_one_over)

lemma pow2_pos: "0 < pow2 e"
  by (simp add: pow2_def)

lemma pow2_add: "pow2 (a + b) = pow2 a * pow2 b"
  by (simp add: pow2_powi power_int_add)

lemma roundTiesToEven_err: "\<bar>of_int (roundTiesToEven x) - x\<bar> \<le> 1 / 2"
proof -
  have "of_int \<lfloor>x\<rfloor> \<le> x" and "x < of_int \<lfloor>x\<rfloor> + 1"
    by linarith+
  then show ?thesis
    by (auto simp: roundTiesToEven_def Let_def)
qed

lemma bitlen_bounds_rat:
  assumes "0 < p"
  shows "pow2 (bitlen p - 1) \<le> of_int p" and "of_int p < pow2 (bitlen p)"
proof -
  from assms have b: "1 \<le> bitlen p"
    using bitlen_eq_zero_iff [of p] bitlen_nonneg [of p] by linarith
  from bitlen_bounds [OF assms]
  have lo: "2 ^ nat (bitlen p - 1) \<le> p" and hi: "p < 2 ^ nat (bitlen p)"
    by simp_all
  have "pow2 (bitlen p - 1) = of_int (2 ^ nat (bitlen p - 1))"
    using b by (simp add: pow2_def)
  also have "\<dots> \<le> of_int p"
    using lo by (simp only: of_int_le_iff)
  finally show "pow2 (bitlen p - 1) \<le> of_int p" .
  have "(of_int p :: rat) < of_int (2 ^ nat (bitlen p))"
    using hi by (simp only: of_int_less_iff)
  also have "\<dots> = pow2 (bitlen p)"
    using b by (simp add: pow2_def)
  finally show "of_int p < pow2 (bitlen p)" .
qed

lemma exponent_bounds:
  assumes "x \<noteq> 0"
  shows "pow2 (exponent x) \<le> \<bar>x\<bar>" and "\<bar>x\<bar> < pow2 (exponent x + 1)"
proof -
  obtain p q where pq: "quotient_of \<bar>x\<bar> = (p, q)"
    by force
  have q: "0 < q"
    using quotient_of_denom_pos [OF pq] .
  have x: "\<bar>x\<bar> = of_int p / of_int q"
    using quotient_of_div [OF pq] .
  have p: "0 < p"
  proof -
    from assms have "0 < \<bar>x\<bar>" by simp
    with x q show ?thesis by (simp add: zero_less_divide_iff)
  qed
  define g where "g = bitlen p - bitlen q"
  have e: "exponent x = (if \<bar>x\<bar> < pow2 g then g - 1 else g)"
    by (simp add: exponent_def pq g_def Let_def)
  have qpos: "(0::rat) < of_int q" using q by simp
  have lo: "pow2 (g - 1) \<le> \<bar>x\<bar>"
  proof -
    have "pow2 (g - 1) * of_int q \<le> pow2 (g - 1) * pow2 (bitlen q)"
      using bitlen_bounds_rat(2) [OF q] pow2_pos [of "g - 1"]
      by (simp add: mult_left_mono less_imp_le)
    also have "\<dots> = pow2 (bitlen p - 1)"
      by (simp add: pow2_add [symmetric] g_def)
    also have "\<dots> \<le> of_int p"
      using bitlen_bounds_rat(1) [OF p] .
    finally show ?thesis
      using qpos by (simp add: x pos_le_divide_eq)
  qed
  have hi: "\<bar>x\<bar> < pow2 (g + 1)"
  proof -
    have "of_int p < pow2 (bitlen p)"
      using bitlen_bounds_rat(2) [OF p] .
    also have "\<dots> = pow2 (g + 1) * pow2 (bitlen q - 1)"
      by (simp add: pow2_add [symmetric] g_def)
    also have "\<dots> \<le> pow2 (g + 1) * of_int q"
      using bitlen_bounds_rat(1) [OF q] pow2_pos [of "g + 1"]
      by (simp add: mult_left_mono less_imp_le)
    finally show ?thesis
      using qpos by (simp add: x pos_divide_less_eq)
  qed
  show "pow2 (exponent x) \<le> \<bar>x\<bar>"
    using lo by (simp add: e)
  show "\<bar>x\<bar> < pow2 (exponent x + 1)"
    using hi by (simp add: e)
qed

lemma fl_err:
  assumes "0 < x"
  shows "\<bar>fl x - x\<bar> \<le> x / 2 ^ 53"
proof -
  define u where "u = pow2 (exponent x - 52)"
  have u: "0 < u" by (simp add: u_def pow2_pos)
  have "fl x - x = u * (of_int (roundTiesToEven (x / u)) - x / u)"
    using assms u by (simp add: fl_def u_def [symmetric] Let_def algebra_simps)
  then have "\<bar>fl x - x\<bar> = u * \<bar>of_int (roundTiesToEven (x / u)) - x / u\<bar>"
    using u by (simp add: abs_mult)
  also have "\<dots> \<le> u * (1 / 2)"
    using roundTiesToEven_err [of "x / u"] u by (simp add: mult_left_mono less_imp_le)
  also have "\<dots> = pow2 (exponent x) / 2 ^ 53"
  proof -
    have "pow2 (exponent x) = pow2 (exponent x - 52) * pow2 52"
      by (simp add: pow2_add [symmetric])
    then show ?thesis
      by (simp add: u_def pow2_def)
  qed
  also have "\<dots> \<le> x / 2 ^ 53"
    using exponent_bounds(1) [of x] assms by (simp add: divide_right_mono)
  finally show ?thesis .
qed

text \<open>The result of rounding a positive number has a significand of 53 bits.\<close>

lemma fl_significand:
  assumes "0 < x"
  shows "\<exists>m. fl x = of_int m * pow2 (exponent x - 52) \<and> 2 ^ 52 \<le> m \<and> m \<le> 2 ^ 53"
proof -
  define u where "u = pow2 (exponent x - 52)"
  define m where "m = roundTiesToEven (x / u)"
  have u: "0 < u"
    by (simp add: u_def pow2_pos)
  have e: "pow2 (exponent x) = u * 2 ^ 52" "pow2 (exponent x + 1) = u * 2 ^ 53"
  proof -
    have "pow2 (exponent x) = pow2 (exponent x - 52) * pow2 52"
      and "pow2 (exponent x + 1) = pow2 (exponent x - 52) * pow2 53"
      by (simp_all add: pow2_add [symmetric] add.commute)
    then show "pow2 (exponent x) = u * 2 ^ 52" "pow2 (exponent x + 1) = u * 2 ^ 53"
      by (simp_all add: u_def pow2_def)
  qed
  from exponent_bounds [of x] assms
  have "u * 2 ^ 52 \<le> x" and "x < u * 2 ^ 53"
    by (simp_all add: e)
  then have z: "2 ^ 52 \<le> x / u" "x / u < 2 ^ 53"
    using u by (simp_all add: pos_le_divide_eq pos_divide_less_eq mult.commute)
  have r: "\<bar>of_int m - x / u\<bar> \<le> 1 / 2"
    unfolding m_def by (rule roundTiesToEven_err)
  have "(2 ^ 52 :: rat) - 1 / 2 \<le> of_int m" "(of_int m :: rat) < 2 ^ 53 + 1 / 2"
    using z r by linarith+
  then have "(of_int (2 ^ 52 - 1) :: rat) < of_int m" "(of_int m :: rat) < of_int (2 ^ 53 + 1)"
    by simp_all
  then have "2 ^ 52 - 1 < m" "m < 2 ^ 53 + 1"
    by (simp_all only: of_int_less_iff)
  then have "2 ^ 52 \<le> m" "m \<le> 2 ^ 53"
    by simp_all
  moreover have "fl x = of_int m * u"
    using assms by (simp add: fl_def m_def u_def Let_def)
  ultimately show ?thesis
    unfolding u_def by blast
qed

text \<open>
  The two roundings of \<^verbatim>\<open>(completed / total) * 100\<close> together move the result by less
  than \<open>2\<^sup>-\<^sup>4\<^sup>4\<close>, while the exact percentage of a list shorter than \<open>2\<^sup>3\<^sup>2\<close> is, unless
  it lies halfway between two integers, at least \<open>2\<^sup>-\<^sup>3\<^sup>3\<close> away from halfway.
\<close>

lemma rate_err:
  assumes "c \<le> t" and "0 < t"
  shows "\<bar>fl (fl (of_nat c / of_nat t) * 100) - 100 * of_nat c / of_nat t\<bar> \<le> 300 / 2 ^ 53"
proof (cases "c = 0")
  case True
  then show ?thesis by (simp add: fl_def)
next
  case False
  define a :: rat where "a = of_nat c / of_nat t"
  define y1 where "y1 = fl a"
  from False assms have a: "0 < a" "a \<le> 1"
    by (simp_all add: a_def)
  have e1: "\<bar>y1 - a\<bar> \<le> 1 / 2 ^ 53"
  proof -
    have "\<bar>y1 - a\<bar> \<le> a / 2 ^ 53"
      unfolding y1_def using fl_err [OF a(1)] .
    also have "\<dots> \<le> 1 / 2 ^ 53"
      using a(2) by (simp add: divide_right_mono)
    finally show ?thesis .
  qed
  have y1: "0 < y1" "y1 \<le> 2"
  proof -
    have "\<bar>y1 - a\<bar> \<le> a / 2 ^ 53"
      unfolding y1_def using fl_err [OF a(1)] .
    moreover have "a / 2 ^ 53 < a"
      using a(1) by (simp add: divide_less_eq)
    ultimately show "0 < y1" by linarith
    have "(1::rat) / 2 ^ 53 \<le> 1" by simp
    with e1 a(2) show "y1 \<le> 2" by linarith
  qed
  have e2: "\<bar>fl (y1 * 100) - y1 * 100\<bar> \<le> 200 / 2 ^ 53"
  proof -
    have "0 < y1 * 100" using y1(1) by simp
    from fl_err [OF this] have "\<bar>fl (y1 * 100) - y1 * 100\<bar> \<le> y1 * 100 / 2 ^ 53" .
    also have "\<dots> \<le> 2 * 100 / 2 ^ 53"
      using y1(2) by (intro divide_right_mono mult_right_mono) simp_all
    finally show ?thesis by simp
  qed
  have e3: "\<bar>y1 * 100 - 100 * a\<bar> \<le> 100 / 2 ^ 53"
    using e1 by linarith
  have "\<bar>fl (y1 * 100) - 100 * a\<bar> \<le> 300 / 2 ^ 53"
    using e2 e3 by linarith
  then show ?thesis
    by (simp add: y1_def a_def)
qed

lemma round_stable:
  fixes y :: rat
  assumes t: "0 < t" "t < 2 ^ 32"
    and y: "\<bar>y - 100 * of_nat c / of_nat t\<bar> \<le> 300 / 2 ^ 53"
  shows "\<bar>of_int \<lfloor>y + 1 / 2\<rfloor> - 100 * of_nat c / of_nat t\<bar> \<le> (1 / 2 :: rat)"
    and "of_int \<lfloor>100 * of_nat c / of_nat t + 1 / 2 :: rat\<rfloor> \<noteq> 100 * of_nat c / of_nat t + (1 / 2 :: rat)
         \<Longrightarrow> \<lfloor>y + 1 / 2\<rfloor> = \<lfloor>100 * of_nat c / of_nat t + 1 / 2 :: rat\<rfloor>"
proof -
  define x :: rat where "x = 100 * of_nat c / of_nat t"
  define n :: int where "n = 200 * int c + int t"
  define d :: int where "d = 2 * int t"
  define k where "k = n div d"
  define r where "r = n mod d"
  have d: "0 < d" "d < 2 ^ 33"
    using t by (simp_all add: d_def)
  have r: "0 \<le> r" "r < d"
    using d by (simp_all add: r_def)
  have dq: "(0::rat) < of_int d"
    using d by simp
  have "n = k * d + r"
    by (simp add: k_def r_def)
  then have "(of_int n :: rat) = of_int k * of_int d + of_int r"
    by (metis of_int_add of_int_mult)
  then have nd: "(of_int n :: rat) / of_int d = of_int k + of_int r / of_int d"
    using dq by (simp add: field_simps)
  have "x + 1 / 2 = of_int n / of_int d"
    using t by (simp add: x_def n_def d_def field_simps)
  with nd have x: "x + 1 / 2 = of_int k + of_int r / of_int d"
    by simp
  have eps: "(300::rat) / 2 ^ 53 < 1 / of_int d"
  proof -
    have "(of_int d :: rat) < of_int (2 ^ 33)"
      using d(2) by (simp only: of_int_less_iff)
    then have "(of_int d :: rat) * 300 < 2 ^ 53"
      by simp
    then show ?thesis
      using dq by (simp add: field_simps)
  qed
  from y have yx: "\<bar>y - x\<bar> < 1 / of_int d"
    using eps by (simp add: x_def)
  have rd: "0 \<le> (of_int r :: rat) / of_int d" "(of_int r :: rat) / of_int d < 1"
    using r dq by simp_all
  show "\<bar>of_int \<lfloor>y + 1 / 2\<rfloor> - 100 * of_nat c / of_nat t\<bar> \<le> (1 / 2 :: rat)"
  proof (cases "r = 0")
    case True
    with x have xk: "x = of_int k - 1 / 2" by simp
    have "1 / (of_int d :: rat) \<le> 1"
      using d by (simp add: divide_le_eq)
    with yx xk have "of_int (k - 1) \<le> y + 1 / 2" "y + 1 / 2 < of_int (k + 1)"
      by linarith+
    then have "k - 1 \<le> \<lfloor>y + 1 / 2\<rfloor>" "\<lfloor>y + 1 / 2\<rfloor> < k + 1"
      by (simp_all only: le_floor_iff floor_less_iff)
    then consider "\<lfloor>y + 1 / 2\<rfloor> = k - 1" | "\<lfloor>y + 1 / 2\<rfloor> = k"
      by linarith
    then show ?thesis
      by cases (simp_all add: x_def [symmetric] xk)
  next
    case False
    with r have "1 \<le> r" "r \<le> d - 1" by simp_all
    then have "(1::rat) \<le> of_int r" "(of_int r :: rat) \<le> of_int d - 1"
      by (metis of_int_1 of_int_le_iff, metis of_int_1 of_int_diff of_int_le_iff)
    then have rd': "1 / of_int d \<le> (of_int r :: rat) / of_int d"
      "(of_int r :: rat) / of_int d \<le> 1 - 1 / of_int d"
      using dq by (simp_all add: field_simps)
    with yx x have "of_int k \<le> y + 1 / 2" "y + 1 / 2 < of_int k + 1"
      by linarith+
    then have "\<lfloor>y + 1 / 2\<rfloor> = k"
      by (rule floor_unique)
    moreover have "\<bar>of_int k - x\<bar> \<le> 1 / 2"
      using x rd by linarith
    ultimately show ?thesis
      by (simp add: x_def)
  qed
  show "\<lfloor>y + 1 / 2\<rfloor> = \<lfloor>100 * of_nat c / of_nat t + 1 / 2 :: rat\<rfloor>"
    if nt: "of_int \<lfloor>100 * of_nat c / of_nat t + 1 / 2 :: rat\<rfloor> \<noteq> 100 * of_nat c / of_nat t + (1 / 2 :: rat)"
  proof -
    have fx: "\<lfloor>x + 1 / 2\<rfloor> = k"
      using x rd by (intro floor_unique) simp_all
    have "r \<noteq> 0"
    proof
      assume "r = 0"
      with x have "x + 1 / 2 = of_int k" by simp
      with nt fx show False by (simp add: x_def)
    qed
    with r have "1 \<le> r" "r \<le> d - 1" by simp_all
    then have "(1::rat) \<le> of_int r" "(of_int r :: rat) \<le> of_int d - 1"
      by (metis of_int_1 of_int_le_iff, metis of_int_1 of_int_diff of_int_le_iff)
    then have rd': "1 / of_int d \<le> (of_int r :: rat) / of_int d"
      "(of_int r :: rat) / of_int d \<le> 1 - 1 / of_int d"
      using dq by (simp_all add: field_simps)
    with yx x have "of_int k \<le> y + 1 / 2" "y + 1 / 2 < of_int k + 1"
      by linarith+
    then have "\<lfloor>y + 1 / 2\<rfloor> = k"
      by (rule floor_unique)
    with fx show ?thesis by (simp add: x_def)
  qed
qed

lemma completionRate_value:
  assumes "c \<le> t" and "0 < t" and "t < 2 ^ 32"
  shows "\<exists>r. Math_round (js_mul (js_div c t) 100) = Finite (of_int r)
           \<and> r = \<lfloor>fl (fl (of_nat c / of_nat t) * 100) + 1 / 2\<rfloor>
           \<and> \<bar>of_int r - of_nat c / of_nat t * 100\<bar> \<le> (1 / 2 :: rat)
           \<and> (of_nat c / of_nat t * 100 + 1 / 2 \<notin> (\<int> :: rat set) \<longrightarrow>
                r = round (of_nat c / of_nat t * 100 :: rat))"
proof -
  define y where "y = fl (fl (of_nat c / of_nat t) * 100)"
  have x: "of_nat c / of_nat t * 100 = (100 * of_nat c / of_nat t :: rat)"
    by simp
  have m: "Math_round (js_mul (js_div c t) 100) = Finite (of_int \<lfloor>y + 1 / 2\<rfloor>)"
    using assms(2) by (simp add: Math_round_def js_mul_def js_div_def y_def)
  have e: "\<bar>y - 100 * of_nat c / of_nat t\<bar> \<le> 300 / 2 ^ 53"
    unfolding y_def using assms(1,2) by (rule rate_err)
  have near: "\<bar>of_int \<lfloor>y + 1 / 2\<rfloor> - 100 * of_nat c / of_nat t\<bar> \<le> (1 / 2 :: rat)"
    using assms(2,3) e by (rule round_stable(1))
  have exact: "\<lfloor>y + 1 / 2\<rfloor> = round (100 * of_nat c / of_nat t :: rat)"
    if "100 * of_nat c / of_nat t + 1 / 2 \<notin> (\<int> :: rat set)"
  proof -
    from that
    have "of_int \<lfloor>100 * of_nat c / of_nat t + 1 / 2 :: rat\<rfloor>
            \<noteq> 100 * of_nat c / of_nat t + (1 / 2 :: rat)"
      by (metis Ints_of_int)
    with assms(2,3) e have "\<lfloor>y + 1 / 2\<rfloor> = \<lfloor>100 * of_nat c / of_nat t + 1 / 2 :: rat\<rfloor>"
      by (rule round_stable(2))
    then show ?thesis by (simp add: round_def)
  qed
  from m near exact show ?thesis
    unfolding x y_def by blast
qed

text \<open>
  On a successful fetch the statistics shown are those of the fetched list.
\<close>

lemma fetchStats_success:
  fixes req :: "'i request" and ts :: "'i task list"
  shows "fetchTasksFromApi fetched = (req, Inr ts) \<Longrightarrow>
    stats (fst (fetchStats st fetched)) = computeStats ts"
  by (simp add: fetchStats_def Let_def)

subsection \<open>What the statistics compute\<close>

text \<open>
  The statistics shown after a successful fetch are those computed from the fetched
  list. For a list of fewer than \<open>2\<^sup>3\<^sup>2\<close> records (every JavaScript array is):
  \<open>total\<close> is the number of records, \<open>completed\<close> the number of records with status
  \<^verbatim>\<open>completed\<close>, \<open>pending\<close> their difference, which is not negative; the completion
  rate is 0 for the empty list, where nothing is divided; for a non-empty list it is
  \<^verbatim>\<open>Math.round\<close>, halves up, of the double that \<^verbatim>\<open>(completed / total) * 100\<close>
  evaluates to, which is an integer nearest to the exact percentage, and is the exact
  percentage rounded halves up unless that percentage lies halfway between two integers.
  Five tasks of which two are completed give 5, 2, 3 and 40.
\<close>

lemma computeStats_nearest:
  fixes ts :: "'i task list" and req :: "'i request"
  assumes "length ts < 2 ^ 32"
  shows
  "(fetchTasksFromApi fetched = (req, Inr ts) \<longrightarrow>
      stats (fst (fetchStats st fetched)) = computeStats ts)
   \<and> total (computeStats ts) = length ts
   \<and> completed (computeStats ts) = length (filter (\<lambda>task. status task = ''completed'') ts)
   \<and> pending (computeStats ts) = int (total (computeStats ts)) - int (completed (computeStats ts))
   \<and> 0 \<le> pending (computeStats ts)
   \<and> (total (computeStats ts) = 0 \<longrightarrow> completionRate (computeStats ts) = Finite 0)
   \<and> (0 < total (computeStats ts) \<longrightarrow>
        (\<exists>r. completionRate (computeStats ts) = Finite (of_int r)
           \<and> r = \<lfloor>fl (fl (of_nat (completed (computeStats ts))
                           / of_nat (total (computeStats ts))) * 100) + 1 / 2\<rfloor>
           \<and> \<bar>of_int r
                - of_nat (completed (computeStats ts)) / of_nat (total (computeStats ts)) * 100\<bar>
               \<le> (1 / 2 :: rat)
           \<and> (of_nat (completed (computeStats ts)) / of_nat (total (computeStats ts)) * 100 + 1 / 2
                 \<notin> (\<int> :: rat set) \<longrightarrow>
                r = round (of_nat (completed (computeStats ts))
                           / of_nat (total (computeStats ts)) * 100 :: rat))))
   \<and> (length ts = 5 \<and> length (filter (\<lambda>task. status task = ''completed'') ts) = 2 \<longrightarrow>
        computeStats ts = \<lparr>total = 5, completed = 2, pending = 3, completionRate = Finite 40\<rparr>)"
proof -
  define t where "t = length ts"
  define c where "c = length (filter (\<lambda>task. status task = ''completed'') ts)"
  have ct: "c \<le> t"
    by (simp add: c_def t_def)
  have tot: "total (computeStats ts) = t"
    and com: "completed (computeStats ts) = c"
    and pen: "pending (computeStats ts) = int t - int c"
    and rate: "completionRate (computeStats ts)
                 = (if 0 < t then Math_round (js_mul (js_div c t) 100) else Finite 0)"
    by (simp_all add: computeStats_def Let_def t_def c_def)
  have r: "\<exists>r. Math_round (js_mul (js_div c t) 100) = Finite (of_int r)
           \<and> r = \<lfloor>fl (fl (of_nat c / of_nat t) * 100) + 1 / 2\<rfloor>
           \<and> \<bar>of_int r - of_nat c / of_nat t * 100\<bar> \<le> (1 / 2 :: rat)
           \<and> (of_nat c / of_nat t * 100 + 1 / 2 \<notin> (\<int> :: rat set) \<longrightarrow>
                r = round (of_nat c / of_nat t * 100 :: rat))"
    if "0 < t"
    using ct that assms unfolding t_def [symmetric] by (rule completionRate_value)
  have five: "computeStats ts = \<lparr>total = 5, completed = 2, pending = 3, completionRate = Finite 40\<rparr>"
    if "t = 5 \<and> c = 2"
  proof -
    from that have t5: "t = 5" and c2: "c = 2" by simp_all
    from r obtain k where k: "Math_round (js_mul (js_div c t) 100) = Finite (of_int k)"
      and kx: "of_nat c / of_nat t * 100 + 1 / 2 \<notin> (\<int> :: rat set) \<Longrightarrow>
                k = round (of_nat c / of_nat t * 100 :: rat)"
      using t5 by auto
    have v: "(of_nat c / of_nat t * 100 :: rat) = 40"
      by (simp add: t5 c2)
    have "(40 + 1 / 2 :: rat) \<notin> \<int>"
    proof
      assume "(40 + 1 / 2 :: rat) \<in> \<int>"
      then obtain z :: int where z: "(40 + 1 / 2 :: rat) = of_int z"
        by (auto elim: Ints_cases)
      then have "(81 :: rat) = of_int (2 * z)" by simp
      then have "(81 :: int) = 2 * z" by (metis of_int_eq_iff of_int_numeral)
      then show False by presburger
    qed
    with kx v have "k = round (40 :: rat)" by simp
    then have "k = 40" by simp
    with k rate t5 have "completionRate (computeStats ts) = Finite 40" by simp
    with tot com pen t5 c2 show ?thesis
      by (cases "computeStats ts") simp
  qed
  have fetch: "stats (fst (fetchStats st fetched)) = computeStats ts"
    if "fetchTasksFromApi fetched = (req, Inr ts)"
    using that by (rule fetchStats_success)
  have "total (computeStats ts) = length ts
   \<and> completed (computeStats ts) = length (filter (\<lambda>task. status task = ''completed'') ts)
   \<and> pending (computeStats ts) = int (total (computeStats ts)) - int (completed (computeStats ts))
   \<and> 0 \<le> pending (computeStats ts)
   \<and> (total (computeStats ts) = 0 \<longrightarrow> completionRate (computeStats ts) = Finite 0)
   \<and> (0 < total (computeStats ts) \<longrightarrow>
        (\<exists>r. completionRate (computeStats ts) = Finite (of_int r)
           \<and> r = \<lfloor>fl (fl (of_nat (completed (computeStats ts))
                           / of_nat (total (computeStats ts))) * 100) + 1 / 2\<rfloor>
           \<and> \<bar>of_int r
                - of_nat (completed (computeStats ts)) / of_nat (total (computeStats ts)) * 100\<bar>
               \<le> (1 / 2 :: rat)
           \<and> (of_nat (completed (computeStats ts)) / of_nat (total (computeStats ts)) * 100 + 1 / 2
                 \<notin> (\<int> :: rat set) \<longrightarrow>
                r = round (of_nat (completed (computeStats ts))
                           / of_nat (total (computeStats ts)) * 100 :: rat))))
   \<and> (length ts = 5 \<and> length (filter (\<lambda>task. status task = ''completed'') ts) = 2 \<longrightarrow>
        computeStats ts = \<lparr>total = 5, completed = 2, pending = 3, completionRate = Finite 40\<rparr>)"
    unfolding tot com pen
    using ct r five rate by (auto simp: t_def [symmetric] c_def [symmetric])
  with fetch show ?thesis
    by blast
qed

text \<open>
  Five tasks, two of them completed; and eight tasks, one of them completed, where the
  percentage 12.5 is computed exactly and rounded up to 13.
\<close>

lemma computeStats_five_tasks:
  "length (sample_tasks 2 5) < 2 ^ 32
   \<and> computeStats (sample_tasks 2 5)
       = \<lparr>total = 5, completed = 2, pending = 3, completionRate = Finite 40\<rparr>
   \<and> computeStats (sample_tasks 1 8)
       = \<lparr>total = 8, completed = 1, pending = 7, completionRate = Finite 13\<rparr>
   \<and> stats (fst (fetchStats
         \<lparr>stats = \<lparr>total = 0, completed = 0, pending = 0, completionRate = Finite 0\<rparr>,
          loading' = True, error' = None\<rparr>
         (Inr \<lparr>ok = True, text' = [], json = Some (sample_tasks 2 5)\<rparr>)))
       = \<lparr>total = 5, completed = 2, pending = 3, completionRate = Finite 40\<rparr>"
proof -
  let ?st = "\<lparr>stats = \<lparr>total = 0, completed = 0, pending = 0, completionRate = Finite 0\<rparr>,
          loading' = True, error' = None\<rparr>"
  let ?f = "Inr \<lparr>ok = True, text' = [], json = Some (sample_tasks 2 5)\<rparr> :: nat task list fetched"
  have s: "fetchTasksFromApi ?f = (GET_tasks :: nat request, Inr (sample_tasks 2 5))"
    by (simp add: fetchTasksFromApi_def handleResponse_def)
  have l: "length (sample_tasks 2 5) < 2 ^ 32"
    by (simp add: sample_tasks_def)
  have "length (sample_tasks 2 5) = 5"
    by (simp add: sample_tasks_def)
  moreover have "length (filter (\<lambda>task. status task = ''completed'') (sample_tasks 2 5)) = 2"
    by code_simp
  moreover have "computeStats (sample_tasks 1 8)
       = \<lparr>total = 8, completed = 1, pending = 7, completionRate = Finite 13\<rparr>"
    by code_simp
  ultimately show ?thesis
    using computeStats_nearest [OF l, of ?f GET_tasks ?st] l s by simp
qed

section \<open>The claims\<close>

subsection \<open>C1: delete, confirmation declined\<close>

text \<open>
  Claim C1, as the code has it. When \<^verbatim>\<open>window.confirm\<close> returns false, \<^verbatim>\<open>deleteTask\<close>
  asks for the confirmation and does nothing else but clear the surfaced error: no
  request is sent, the tasks list and every other field of the state are unchanged, and
  the error is \<open>None\<close>.
\<close>

theorem deleteTask_declined:
  "deleteTask st i False fetched =
     (st\<lparr>error := None\<rparr>, [Confirm ''Are you sure you want to delete this task?''])
   \<and> tasks (fst (deleteTask st i False fetched)) = tasks st
   \<and> (\<forall>r. Request r \<notin> set (snd (deleteTask st i False fetched)))"
  by (simp add: deleteTask_def Let_def)

text \<open>
  At a state that shows an error: afterwards the error is gone, nothing else has changed.
\<close>

theorem deleteTask_declined_witness:
  "deleteTask (mk_state (sample_tasks 1 2) (Some ''Failed to fetch tasks. Please try again.'') ''all'' [])
     1 False (Inl TypeError :: unit fetched)
     = (mk_state (sample_tasks 1 2) None ''all'' [],
        [Confirm ''Are you sure you want to delete this task?''])"
  using deleteTask_declined
    [of "mk_state (sample_tasks 1 2) (Some ''Failed to fetch tasks. Please try again.'') ''all'' []"
      1 "Inl TypeError :: unit fetched"]
  by (simp add: mk_state_def)

text \<open>
  The claim as stated, that the surfaced error state does not change, fails at a state
  that shows an error: declining the confirmation clears it.
\<close>

theorem deleteTask_declined_counterexample:
  "error (fst (deleteTask
      \<lparr>tasks = [], loading = False, error = Some ''Failed to fetch tasks. Please try again.'',
       showForm = False, editingTask = None, filter' = ''all'', searchTerm = ''''\<rparr>
      (1::nat) False (Inl TypeError :: unit fetched)))
   \<noteq> error
      \<lparr>tasks = [], loading = False, error = Some ''Failed to fetch tasks. Please try again.'',
       showForm = False, editingTask = None, filter' = ''all'', searchTerm = ''''\<rparr>"
  by (simp add: deleteTask_def Let_def)

subsection \<open>C2: the filtered view\<close>



subsection \<open>C3: the statistics\<close>

text \<open>
  Claim C3: the completion rate is \<open>round (completed / total * 100)\<close>. The code misses
  it for 40 tasks of which 23 are completed. The percentage is 57.5, which rounds to 58.
  The code divides first: the double nearest to \<open>23 / 40\<close> times 100 lies below 57.5, so
  does the double the product is rounded to, and \<^verbatim>\<open>Math.round\<close> returns 57. The counts
  are as the claim says: 40, 23 and 17.
\<close>

theorem computeStats_23_of_40:
  "total (computeStats (sample_tasks 23 40)) = 40
   \<and> completed (computeStats (sample_tasks 23 40)) = 23
   \<and> pending (computeStats (sample_tasks 23 40)) = 17
   \<and> completionRate (computeStats (sample_tasks 23 40)) = Finite 57
   \<and> round (23 / 40 * 100 :: rat) = 58
   \<and> fl (23 / 40) * 100 < 23 / 40 * 100
   \<and> fl (fl (23 / 40) * 100) < 23 / 40 * 100"
proof -
  have "computeStats (sample_tasks 23 40)
          = \<lparr>total = 40, completed = 23, pending = 17, completionRate = Finite 57\<rparr>"
    by code_simp
  moreover have "round (23 / 40 * 100 :: rat) = 58"
    by (simp add: round_def)
  moreover have "fl (23 / 40) * 100 < 23 / 40 * 100"
    and "fl (fl (23 / 40) * 100) < 23 / 40 * 100"
    by code_simp+
  ultimately show ?thesis by simp
qed

subsection \<open>C4: update\<close>

text \<open>
  Claim C4. When the transport call succeeds with the record \<open>updatedTask\<close>, the new
  tasks list is the old one with every element of the given id replaced by
  \<open>updatedTask\<close>: the length is the same, each position holds \<open>updatedTask\<close> if the
  old element there has the id and the old element otherwise, and when the ids of the
  list are distinct and the id is present, exactly one position has it. When the
  transport call fails, the tasks list is unchanged.
\<close>

theorem updateTask_tasks:
  "(snd (updateTaskOnServer i updatedData fetched) = Inr updatedTask \<longrightarrow>
      tasks (fst (updateTask st i updatedData fetched))
        = map (\<lambda>task. if id' task = i then updatedTask else task) (tasks st)
      \<and> length (tasks (fst (updateTask st i updatedData fetched))) = length (tasks st)
      \<and> (\<forall>k < length (tasks st).
            tasks (fst (updateTask st i updatedData fetched)) ! k
              = (if id' (tasks st ! k) = i then updatedTask else tasks st ! k))
      \<and> (distinct (map id' (tasks st)) \<and> i \<in> id' ` set (tasks st) \<longrightarrow>
            (\<exists>!k. k < length (tasks st) \<and> id' (tasks st ! k) = i)))
   \<and> (snd (updateTaskOnServer i updatedData fetched) = Inl err \<longrightarrow>
        tasks (fst (updateTask st i updatedData fetched)) = tasks st)"
proof (intro conjI impI)
  assume ok: "snd (updateTaskOnServer i updatedData fetched) = Inr updatedTask"
  then show m: "tasks (fst (updateTask st i updatedData fetched))
        = map (\<lambda>task. if id' task = i then updatedTask else task) (tasks st)"
    by (simp add: updateTask_def Let_def case_prod_beta)
  then show "length (tasks (fst (updateTask st i updatedData fetched))) = length (tasks st)"
    by simp
  from m show "\<forall>k < length (tasks st).
            tasks (fst (updateTask st i updatedData fetched)) ! k
              = (if id' (tasks st ! k) = i then updatedTask else tasks st ! k)"
    by simp
next
  assume "distinct (map id' (tasks st)) \<and> i \<in> id' ` set (tasks st)"
  then have d: "distinct (map id' (tasks st))" and "i \<in> set (map id' (tasks st))"
    by simp_all
  then obtain k where k: "k < length (tasks st)" "map id' (tasks st) ! k = i"
    by (auto simp: in_set_conv_nth)
  show "\<exists>!k. k < length (tasks st) \<and> id' (tasks st ! k) = i"
  proof (rule ex1I [of _ k])
    show "k < length (tasks st) \<and> id' (tasks st ! k) = i"
      using k by simp
  next
    fix j
    assume j: "j < length (tasks st) \<and> id' (tasks st ! j) = i"
    show "j = k"
    proof (rule ccontr)
      assume "j \<noteq> k"
      moreover have "j < length (map id' (tasks st))" "k < length (map id' (tasks st))"
        using j k by simp_all
      ultimately have "map id' (tasks st) ! j \<noteq> map id' (tasks st) ! k"
        using d unfolding distinct_conv_nth by blast
      with j k show False by simp
    qed
  qed
next
  assume "snd (updateTaskOnServer i updatedData fetched) = Inl err"
  then show "tasks (fst (updateTask st i updatedData fetched)) = tasks st"
    by (simp add: updateTask_def Let_def case_prod_beta)
qed

text \<open>
  Three tasks, the second patched to \<^verbatim>\<open>completed\<close>: only the second changes. With
  a 404 response nothing changes.
\<close>

theorem updateTask_tasks_witness:
  "tasks (fst (updateTask
       (mk_state [mk_task 1 ''Buy Milk'' [] ''pending'' ''high'',
                  mk_task 2 ''Walk the dog'' [] ''pending'' ''low'',
                  mk_task 3 ''Pay rent'' [] ''completed'' ''high''] None ''all'' [])
       2 [(''status'', ''completed'')]
       (Inr \<lparr>ok = True, text' = [],
             json = Some (mk_task 2 ''Walk the dog'' [] ''completed'' ''low'')\<rparr>)))
     = [mk_task 1 ''Buy Milk'' [] ''pending'' ''high'',
        mk_task 2 ''Walk the dog'' [] ''completed'' ''low'',
        mk_task 3 ''Pay rent'' [] ''completed'' ''high'']
   \<and> (\<exists>!k. k < length [mk_task 1 ''Buy Milk'' [] ''pending'' ''high'',
                  mk_task 2 ''Walk the dog'' [] ''pending'' ''low'',
                  mk_task 3 ''Pay rent'' [] ''completed'' ''high'']
            \<and> id' ([mk_task 1 ''Buy Milk'' [] ''pending'' ''high'',
                  mk_task 2 ''Walk the dog'' [] ''pending'' ''low'',
                  mk_task 3 ''Pay rent'' [] ''completed'' ''high''] ! k) = 2)
   \<and> tasks (fst (updateTask
       (mk_state [mk_task 1 ''Buy Milk'' [] ''pending'' ''high'',
                  mk_task 2 ''Walk the dog'' [] ''pending'' ''low'',
                  mk_task 3 ''Pay rent'' [] ''completed'' ''high''] None ''all'' [])
       2 [(''status'', ''completed'')]
       (Inr \<lparr>ok = False, text' = ''Not Found'', json = None\<rparr>)))
     = [mk_task 1 ''Buy Milk'' [] ''pending'' ''high'',
        mk_task 2 ''Walk the dog'' [] ''pending'' ''low'',
        mk_task 3 ''Pay rent'' [] ''completed'' ''high'']"
proof -
  let ?ts = "[mk_task 1 ''Buy Milk'' [] ''pending'' ''high'',
              mk_task 2 ''Walk the dog'' [] ''pending'' ''low'',
              mk_task 3 ''Pay rent'' [] ''completed'' ''high'']"
  let ?st = "mk_state ?ts None ''all'' []"
  let ?u = "mk_task 2 ''Walk the dog'' [] ''completed'' ''low''"
  let ?good = "Inr \<lparr>ok = True, text' = [], json = Some ?u\<rparr> :: nat task fetched"
  let ?bad = "Inr \<lparr>ok = False, text' = ''Not Found'', json = None\<rparr> :: nat task fetched"
  have s: "snd (updateTaskOnServer (2::nat) [(''status'', ''completed'')] ?good) = Inr ?u"
    by (simp add: updateTaskOnServer_def handleResponse_def)
  have f: "snd (updateTaskOnServer (2::nat) [(''status'', ''completed'')] ?bad)
             = Inl (Error ''Not Found'')"
    by (simp add: updateTaskOnServer_def handleResponse_def)
  have d: "distinct (map id' (tasks ?st)) \<and> 2 \<in> id' ` set (tasks ?st)"
    by (simp add: mk_state_def mk_task_def)
  have t: "tasks ?st = ?ts"
    by (simp add: mk_state_def)
  from updateTask_tasks [of 2 "[(''status'', ''completed'')]" ?good ?u ?st] s d
  have "tasks (fst (updateTask ?st 2 [(''status'', ''completed'')] ?good))
          = map (\<lambda>task. if id' task = 2 then ?u else task) (tasks ?st)"
    and "\<exists>!k. k < length (tasks ?st) \<and> id' (tasks ?st ! k) = 2"
    by blast+
  moreover from updateTask_tasks [of 2 "[(''status'', ''completed'')]" ?bad _ ?st "Error ''Not Found''"] f
  have "tasks (fst (updateTask ?st 2 [(''status'', ''completed'')] ?bad)) = tasks ?st"
    by blast
  ultimately show ?thesis
    unfolding t by (simp add: mk_task_def)
qed

subsection \<open>C5: create\<close>

text \<open>
  Claim C5. The first thing \<^verbatim>\<open>createTask\<close> does is send the POST request whose body
  is the submitted payload with \<^verbatim>\<open>createdAt\<close> set to the clock reading taken at the
  call, all other fields as submitted. When the transport call succeeds with the record
  \<open>newTask\<close>, the new tasks list is \<open>newTask\<close> followed by the old list: the server's
  record is at index 0 and every old element has moved up by one. When it fails, the
  tasks list is unchanged and the error is set.
\<close>

theorem createTask_spec:
  fixes st :: "'i state" and req :: "'i request"
  shows
  "hd (snd (createTask st taskData now fetched))
     = Request (POST_tasks (AList.update ''createdAt'' now taskData))
   \<and> map_of (AList.update ''createdAt'' now taskData) ''createdAt'' = Some now
   \<and> (\<forall>k. k \<noteq> ''createdAt'' \<longrightarrow>
         map_of (AList.update ''createdAt'' now taskData) k = map_of taskData k)
   \<and> (createTaskOnServer (AList.update ''createdAt'' now taskData) fetched = (req, Inr newTask) \<longrightarrow>
         tasks (fst (createTask st taskData now fetched)) = newTask # tasks st
         \<and> tasks (fst (createTask st taskData now fetched)) ! 0 = newTask
         \<and> (\<forall>k < length (tasks st).
               tasks (fst (createTask st taskData now fetched)) ! Suc k = tasks st ! k))
   \<and> (createTaskOnServer (AList.update ''createdAt'' now taskData) fetched = (req, Inl err) \<longrightarrow>
         tasks (fst (createTask st taskData now fetched)) = tasks st
         \<and> error (fst (createTask st taskData now fetched)) \<noteq> None)"
proof (intro conjI impI allI)
  show "hd (snd (createTask st taskData now fetched))
     = Request (POST_tasks (AList.update ''createdAt'' now taskData))"
    by (simp add: createTask_def createTaskOnServer_def Let_def split: sum.splits)
  show "map_of (AList.update ''createdAt'' now taskData) ''createdAt'' = Some now"
    by (simp add: update_conv')
  show "map_of (AList.update ''createdAt'' now taskData) k = map_of taskData k"
    if "k \<noteq> ''createdAt''" for k
    using that by (simp add: update_conv')
next
  assume ok: "createTaskOnServer (AList.update ''createdAt'' now taskData) fetched = (req, Inr newTask)"
  then show t: "tasks (fst (createTask st taskData now fetched)) = newTask # tasks st"
    by (simp add: createTask_def Let_def)
  then show "tasks (fst (createTask st taskData now fetched)) ! 0 = newTask"
    by simp
  fix k
  from t show "tasks (fst (createTask st taskData now fetched)) ! Suc k = tasks st ! k"
    by simp
next
  assume "createTaskOnServer (AList.update ''createdAt'' now taskData) fetched = (req, Inl err)"
  then show "tasks (fst (createTask st taskData now fetched)) = tasks st"
    and "error (fst (createTask st taskData now fetched)) \<noteq> None"
    by (simp_all add: createTask_def Let_def)
qed

text \<open>
  Submitting title \<^verbatim>\<open>X\<close>, description \<^verbatim>\<open>Y\<close>, status \<^verbatim>\<open>pending\<close>, priority
  \<^verbatim>\<open>low\<close>: the record the server returns, with its id 7, is first in the list. With
  a 500 response the list is unchanged and an error is shown.
\<close>

theorem createTask_spec_witness:
  "tasks (fst (createTask
       (mk_state [mk_task 1 ''Buy Milk'' [] ''pending'' ''high''] None ''all'' [])
       [(''title'', ''X''), (''description'', ''Y''), (''status'', ''pending''), (''priority'', ''low'')]
       ''2024-06-01T12:00:00.000Z''
       (Inr \<lparr>ok = True, text' = [],
             json = Some \<lparr>id' = 7, title = ''X'', description = ''Y'', status = ''pending'',
                          priority = ''low'', createdAt = ''2024-06-01T12:00:00.000Z''\<rparr>\<rparr>)))
     = [\<lparr>id' = 7, title = ''X'', description = ''Y'', status = ''pending'',
         priority = ''low'', createdAt = ''2024-06-01T12:00:00.000Z''\<rparr>,
        mk_task 1 ''Buy Milk'' [] ''pending'' ''high'']
   \<and> tasks (fst (createTask
       (mk_state [mk_task 1 ''Buy Milk'' [] ''pending'' ''high''] None ''all'' [])
       [(''title'', ''X''), (''description'', ''Y''), (''status'', ''pending''), (''priority'', ''low'')]
       ''2024-06-01T12:00:00.000Z''
       (Inr \<lparr>ok = False, text' = ''Internal Server Error'', json = None\<rparr>)))
     = [mk_task 1 ''Buy Milk'' [] ''pending'' ''high'']
   \<and> error (fst (createTask
       (mk_state [mk_task 1 ''Buy Milk'' [] ''pending'' ''high''] None ''all'' [])
       [(''title'', ''X''), (''description'', ''Y''), (''status'', ''pending''), (''priority'', ''low'')]
       ''2024-06-01T12:00:00.000Z''
       (Inr \<lparr>ok = False, text' = ''Internal Server Error'', json = None\<rparr>)))
     \<noteq> None"
proof -
  let ?st = "mk_state [mk_task 1 ''Buy Milk'' [] ''pending'' ''high''] None ''all'' []"
  let ?d = "[(''title'', ''X''), (''description'', ''Y''), (''status'', ''pending''),
             (''priority'', ''low'')]"
  let ?now = "''2024-06-01T12:00:00.000Z''"
  let ?n = "\<lparr>id' = 7::nat, title = ''X'', description = ''Y'', status = ''pending'',
             priority = ''low'', createdAt = ''2024-06-01T12:00:00.000Z''\<rparr>"
  let ?good = "Inr \<lparr>ok = True, text' = [], json = Some ?n\<rparr> :: nat task fetched"
  let ?bad = "Inr \<lparr>ok = False, text' = ''Internal Server Error'', json = None\<rparr> :: nat task fetched"
  let ?req = "POST_tasks (AList.update ''createdAt'' ?now ?d) :: nat request"
  have s: "createTaskOnServer (AList.update ''createdAt'' ?now ?d) ?good = (?req, Inr ?n)"
    by (simp add: createTaskOnServer_def handleResponse_def)
  have f: "createTaskOnServer (AList.update ''createdAt'' ?now ?d) ?bad
             = (?req, Inl (Error ''Internal Server Error''))"
    by (simp add: createTaskOnServer_def handleResponse_def)
  from createTask_spec [of ?st ?d ?now ?good ?req ?n] s
  have "tasks (fst (createTask ?st ?d ?now ?good)) = ?n # tasks ?st"
    by blast
  moreover from createTask_spec [of ?st ?d ?now ?bad ?req _ "Error ''Internal Server Error''"] f
  have "tasks (fst (createTask ?st ?d ?now ?bad)) = tasks ?st"
    and "error (fst (createTask ?st ?d ?now ?bad)) \<noteq> None"
    by blast+
  ultimately show ?thesis
    by (simp add: mk_state_def)
qed

subsection \<open>C6: toggle status\<close>

text \<open>
  Claim C6. When the lookup by id finds a record in the current tasks list (which it
  does exactly when the id is present), \<^verbatim>\<open>toggleTaskStatus\<close> is the update of that id
  with the one-field patch that sets \<^verbatim>\<open>status\<close> to \<^verbatim>\<open>pending\<close> for a completed
  record and to \<^verbatim>\<open>completed\<close> for a pending one (as for any record not completed),
  and the PATCH request with that patch is the first thing it does. When the id is not
  present, the state is unchanged, the error included, and nothing is sent.
\<close>

theorem toggleTaskStatus_spec:
  "(find (\<lambda>t. id' t = i) (tasks st) = Some task \<longrightarrow>
      task \<in> set (tasks st) \<and> id' task = i
      \<and> toggleTaskStatus st i fetched
          = updateTask st i
              [(''status'', if status task = ''completed'' then ''pending'' else ''completed'')]
              fetched
      \<and> hd (snd (toggleTaskStatus st i fetched))
          = Request (PATCH_task i
              [(''status'', if status task = ''completed'' then ''pending'' else ''completed'')])
      \<and> (status task = ''completed'' \<longrightarrow>
            hd (snd (toggleTaskStatus st i fetched))
              = Request (PATCH_task i [(''status'', ''pending'')]))
      \<and> (status task = ''pending'' \<longrightarrow>
            hd (snd (toggleTaskStatus st i fetched))
              = Request (PATCH_task i [(''status'', ''completed'')])))
   \<and> (i \<in> id' ` set (tasks st) \<longrightarrow> (\<exists>t. find (\<lambda>t. id' t = i) (tasks st) = Some t))
   \<and> (i \<notin> id' ` set (tasks st) \<longrightarrow> toggleTaskStatus st i fetched = (st, []))"
proof (intro conjI impI)
  assume f: "find (\<lambda>t. id' t = i) (tasks st) = Some task"
  then show "task \<in> set (tasks st)" and "id' task = i"
    by (auto simp: find_Some_iff)
  from f show u: "toggleTaskStatus st i fetched
          = updateTask st i
              [(''status'', if status task = ''completed'' then ''pending'' else ''completed'')]
              fetched"
    by (simp add: toggleTaskStatus_def)
  show h: "hd (snd (toggleTaskStatus st i fetched))
          = Request (PATCH_task i
              [(''status'', if status task = ''completed'' then ''pending'' else ''completed'')])"
    unfolding u
    by (simp add: updateTask_def updateTaskOnServer_def Let_def split: sum.splits)
  show "hd (snd (toggleTaskStatus st i fetched)) = Request (PATCH_task i [(''status'', ''pending'')])"
    if "status task = ''completed''"
    using h that by simp
  show "hd (snd (toggleTaskStatus st i fetched)) = Request (PATCH_task i [(''status'', ''completed'')])"
    if "status task = ''pending''"
    using h that by simp
next
  assume "i \<in> id' ` set (tasks st)"
  then have "find (\<lambda>t. id' t = i) (tasks st) \<noteq> None"
    by (auto simp: find_None_iff)
  then show "\<exists>t. find (\<lambda>t. id' t = i) (tasks st) = Some t"
    by blast
next
  assume "i \<notin> id' ` set (tasks st)"
  then have "find (\<lambda>t. id' t = i) (tasks st) = None"
    by (auto simp: find_None_iff)
  then show "toggleTaskStatus st i fetched = (st, [])"
    by (simp add: toggleTaskStatus_def)
qed

text \<open>
  A completed record is patched to \<^verbatim>\<open>pending\<close>, a pending one to
  \<^verbatim>\<open>completed\<close>, and an unknown id does nothing.
\<close>

theorem toggleTaskStatus_spec_witness:
  "hd (snd (toggleTaskStatus
       (mk_state [mk_task 1 ''Buy Milk'' [] ''pending'' ''high'',
                  mk_task 2 ''Walk the dog'' [] ''completed'' ''low''] None ''all'' [])
       2 (Inl TypeError)))
     = Request (PATCH_task 2 [(''status'', ''pending'')])
   \<and> hd (snd (toggleTaskStatus
       (mk_state [mk_task 1 ''Buy Milk'' [] ''pending'' ''high'',
                  mk_task 2 ''Walk the dog'' [] ''completed'' ''low''] None ''all'' [])
       1 (Inl TypeError)))
     = Request (PATCH_task 1 [(''status'', ''completed'')])
   \<and> toggleTaskStatus
       (mk_state [mk_task 1 ''Buy Milk'' [] ''pending'' ''high'',
                  mk_task 2 ''Walk the dog'' [] ''completed'' ''low''] None ''all'' [])
       5 (Inl TypeError)
     = (mk_state [mk_task 1 ''Buy Milk'' [] ''pending'' ''high'',
                  mk_task 2 ''Walk the dog'' [] ''completed'' ''low''] None ''all'' [], [])"
proof -
  let ?t1 = "mk_task 1 ''Buy Milk'' [] ''pending'' ''high''"
  let ?t2 = "mk_task 2 ''Walk the dog'' [] ''completed'' ''low''"
  let ?st = "mk_state [?t1, ?t2] None ''all'' []"
  let ?f = "Inl TypeError :: nat task fetched"
  have f2: "find (\<lambda>t. id' t = 2) (tasks ?st) = Some ?t2" and s2: "status ?t2 = ''completed''"
    and f1: "find (\<lambda>t. id' t = 1) (tasks ?st) = Some ?t1" and s1: "status ?t1 = ''pending''"
    and n5: "5 \<notin> id' ` set (tasks ?st)"
    by (simp_all add: mk_state_def mk_task_def)
  from toggleTaskStatus_spec [of 2 ?st ?t2 ?f] f2 s2
  have "hd (snd (toggleTaskStatus ?st 2 ?f)) = Request (PATCH_task 2 [(''status'', ''pending'')])"
    by blast
  moreover from toggleTaskStatus_spec [of 1 ?st ?t1 ?f] f1 s1
  have "hd (snd (toggleTaskStatus ?st 1 ?f)) = Request (PATCH_task 1 [(''status'', ''completed'')])"
    by blast
  moreover from toggleTaskStatus_spec [of 5 ?st _ ?f] n5
  have "toggleTaskStatus ?st 5 ?f = (?st, [])"
    by blast
  ultimately show ?thesis by simp
qed

subsection \<open>C7: refresh\<close>

text \<open>
  Claim C7. When the transport call succeeds, the tasks list is the fetched list. When
  it fails, the tasks list is the old one, nothing of it merged or dropped, and the
  error shown is \<^verbatim>\<open>Failed to fetch tasks. Please try again.\<close>
\<close>

theorem fetchTasks_spec:
  fixes st :: "'i state" and req :: "'i request"
  shows
  "(fetchTasksFromApi fetched = (req, Inr apiTasks) \<longrightarrow>
      tasks (fst (fetchTasks st fetched)) = apiTasks)
   \<and> (fetchTasksFromApi fetched = (req, Inl err) \<longrightarrow>
        tasks (fst (fetchTasks st fetched)) = tasks st
        \<and> error (fst (fetchTasks st fetched)) = Some ''Failed to fetch tasks. Please try again.'')"
  by (simp add: fetchTasks_def Let_def)

text \<open>
  A list of two replaced by a fetched list of three, and kept on a 503 response.
\<close>

theorem fetchTasks_spec_witness:
  "tasks (fst (fetchTasks (mk_state (sample_tasks 1 2) None ''all'' [])
       (Inr \<lparr>ok = True, text' = [], json = Some (sample_tasks 2 3)\<rparr>)))
     = sample_tasks 2 3
   \<and> tasks (fst (fetchTasks (mk_state (sample_tasks 1 2) None ''all'' [])
       (Inr \<lparr>ok = False, text' = ''Service Unavailable'', json = None\<rparr>)))
     = sample_tasks 1 2
   \<and> error (fst (fetchTasks (mk_state (sample_tasks 1 2) None ''all'' [])
       (Inr \<lparr>ok = False, text' = ''Service Unavailable'', json = None\<rparr>)))
     = Some ''Failed to fetch tasks. Please try again.''"
proof -
  let ?st = "mk_state (sample_tasks 1 2) None ''all'' []"
  let ?good = "Inr \<lparr>ok = True, text' = [], json = Some (sample_tasks 2 3)\<rparr> :: nat task list fetched"
  let ?bad = "Inr \<lparr>ok = False, text' = ''Service Unavailable'', json = None\<rparr> :: nat task list fetched"
  have s: "fetchTasksFromApi ?good = (GET_tasks :: nat request, Inr (sample_tasks 2 3))"
    by (simp add: fetchTasksFromApi_def handleResponse_def)
  have f: "fetchTasksFromApi ?bad = (GET_tasks :: nat request, Inl (Error ''Service Unavailable''))"
    by (simp add: fetchTasksFromApi_def handleResponse_def)
  from fetchTasks_spec [of ?good GET_tasks "sample_tasks 2 3" ?st] s
  have "tasks (fst (fetchTasks ?st ?good)) = sample_tasks 2 3"
    by blast
  moreover from fetchTasks_spec [of ?bad GET_tasks _ ?st "Error ''Service Unavailable''"] f
  have "tasks (fst (fetchTasks ?st ?bad)) = tasks ?st"
    and "error (fst (fetchTasks ?st ?bad)) = Some ''Failed to fetch tasks. Please try again.''"
    by blast+
  ultimately show ?thesis
    by (simp add: mk_state_def)
qed

subsection \<open>C8: the failure contract of the transport client\<close>

text \<open>
  Claim C8, as the code has it. On a response that is not \<^verbatim>\<open>ok\<close>, each of the four
  operations throws \<^verbatim>\<open>Error\<close> with the body text as message when the text is not
  empty, and with the default message otherwise: \<^verbatim>\<open>Request failed\<close> for list, create
  and update, \<^verbatim>\<open>Failed to delete task\<close> for delete. On a response that is \<^verbatim>\<open>ok\<close>,
  delete returns \<^verbatim>\<open>true\<close>; list, create and update return the parsed body, and throw
  the parser's \<^verbatim>\<open>SyntaxError\<close> when the body is not JSON.
\<close>

theorem transport_failure_spec:
  fixes i :: 'i and r :: "'a response"
  shows
  "(\<not> ok r \<longrightarrow>
      snd (fetchTasksFromApi (Inr r) :: 'i request \<times> (js_error + 'a))
        = Inl (Error (if text' r \<noteq> [] then text' r else ''Request failed''))
      \<and> snd (createTaskOnServer taskData (Inr r) :: 'i request \<times> (js_error + 'a))
        = Inl (Error (if text' r \<noteq> [] then text' r else ''Request failed''))
      \<and> snd (updateTaskOnServer i updates (Inr r))
        = Inl (Error (if text' r \<noteq> [] then text' r else ''Request failed''))
      \<and> snd (deleteTaskOnServer i (Inr r))
        = Inl (Error (if text' r \<noteq> [] then text' r else ''Failed to delete task'')))
   \<and> (ok r \<longrightarrow>
      snd (fetchTasksFromApi (Inr r) :: 'i request \<times> (js_error + 'a))
        = (case json r of None \<Rightarrow> Inl SyntaxError | Some v \<Rightarrow> Inr v)
      \<and> snd (createTaskOnServer taskData (Inr r) :: 'i request \<times> (js_error + 'a))
        = (case json r of None \<Rightarrow> Inl SyntaxError | Some v \<Rightarrow> Inr v)
      \<and> snd (updateTaskOnServer i updates (Inr r))
        = (case json r of None \<Rightarrow> Inl SyntaxError | Some v \<Rightarrow> Inr v)
      \<and> snd (deleteTaskOnServer i (Inr r)) = Inr True)"
  by (simp add: fetchTasksFromApi_def createTaskOnServer_def updateTaskOnServer_def
      deleteTaskOnServer_def handleResponse_def Let_def)

text \<open>
  A 404 with a body, a failed delete with an empty body, and a successful update.
\<close>

theorem transport_failure_spec_witness:
  "snd (updateTaskOnServer (2::nat) [(''status'', ''completed'')]
         (Inr \<lparr>ok = False, text' = ''Not Found'', json = None :: nat task option\<rparr>))
     = Inl (Error ''Not Found'')
   \<and> snd (deleteTaskOnServer (2::nat)
         (Inr \<lparr>ok = False, text' = [], json = None :: nat task option\<rparr>))
     = Inl (Error ''Failed to delete task'')
   \<and> snd (updateTaskOnServer (2::nat) [(''status'', ''completed'')]
         (Inr \<lparr>ok = True, text' = ''{}'', json = Some (mk_task 2 ''Walk'' [] ''completed'' ''low'')\<rparr>))
     = Inr (mk_task 2 ''Walk'' [] ''completed'' ''low'')"
proof -
  let ?r1 = "\<lparr>ok = False, text' = ''Not Found'', json = None :: nat task option\<rparr>"
  let ?r2 = "\<lparr>ok = False, text' = [], json = None :: nat task option\<rparr>"
  let ?r3 = "\<lparr>ok = True, text' = ''{}'', json = Some (mk_task 2 ''Walk'' [] ''completed'' ''low'')\<rparr>"
  have "\<not> ok ?r1" "\<not> ok ?r2" "ok ?r3"
    by simp_all
  with transport_failure_spec [where r = ?r1 and i = "2::nat" and updates = "[(''status'', ''completed'')]"]
    transport_failure_spec [where r = ?r2 and i = "2::nat"]
    transport_failure_spec [where r = ?r3 and i = "2::nat" and updates = "[(''status'', ''completed'')]"]
  show ?thesis by simp
qed

text \<open>
  The claim as stated, that a success response never raises, fails for a 2xx response
  whose body is a web page: \<^verbatim>\<open>response.json()\<close> rejects and the list operation throws.
\<close>

theorem transport_success_counterexample:
  "snd (fetchTasksFromApi (Inr \<lparr>ok = True, text' = ''<!DOCTYPE html>'', json = None\<rparr>)
        :: nat request \<times> (js_error + nat task list))
     = Inl SyntaxError"
  by (simp add: fetchTasksFromApi_def handleResponse_def)

subsection \<open>C9: what the transport delete returns\<close>

text \<open>
  Claim C9. On a response that is \<^verbatim>\<open>ok\<close> the delete operation returns
  \<^verbatim>\<open>true\<close>; whatever \<^verbatim>\<open>fetch\<close> produced, it never returns \<^verbatim>\<open>false\<close>; on a
  response that is not \<^verbatim>\<open>ok\<close> it throws an \<^verbatim>\<open>Error\<close>.
\<close>

theorem deleteTaskOnServer_true:
  "(ok r \<longrightarrow> snd (deleteTaskOnServer i (Inr r)) = Inr True)
   \<and> snd (deleteTaskOnServer i fetched) \<noteq> Inr False
   \<and> (\<not> ok r \<longrightarrow> (\<exists>m. snd (deleteTaskOnServer i (Inr r)) = Inl (Error m)))"
  by (simp add: deleteTaskOnServer_def Let_def split: sum.splits)

text \<open>
  A 200 response and a 404 response.
\<close>

theorem deleteTaskOnServer_true_witness:
  "snd (deleteTaskOnServer (2::nat) (Inr \<lparr>ok = True, text' = [], json = None :: unit option\<rparr>))
     = Inr True
   \<and> (\<exists>m. snd (deleteTaskOnServer (2::nat)
               (Inr \<lparr>ok = False, text' = ''Not Found'', json = None :: unit option\<rparr>))
            = Inl (Error m))"
proof -
  let ?good = "\<lparr>ok = True, text' = [], json = None :: unit option\<rparr>"
  let ?bad = "\<lparr>ok = False, text' = ''Not Found'', json = None :: unit option\<rparr>"
  have "ok ?good" and "\<not> ok ?bad"
    by simp_all
  with deleteTaskOnServer_true [where r = ?good and i = "2::nat" and fetched = "Inl TypeError"]
    deleteTaskOnServer_true [where r = ?bad and i = "2::nat" and fetched = "Inl TypeError"]
  show ?thesis by blast
qed

subsection \<open>C10: the filtered view is a subsequence\<close>

text \<open>
  Claim C10. The filtered view is a subsequence of the tasks list: it keeps the order,
  contains only records of the tasks list, contains no record more often than the tasks
  list does, and has no repetition when the tasks list has none.
\<close>

theorem filteredTasks_subseq:
  "subseq (filteredTasks st) (tasks st)
   \<and> set (filteredTasks st) \<subseteq> set (tasks st)
   \<and> (\<forall>t. count_list (filteredTasks st) t \<le> count_list (tasks st) t)
   \<and> (distinct (tasks st) \<longrightarrow> distinct (filteredTasks st))"
  by (simp add: filteredTasks_def count_list_filter_le)

text \<open>
  Three distinct tasks, filtered by status.
\<close>

theorem filteredTasks_subseq_witness:
  "distinct (tasks (mk_state (sample_tasks 1 3) None ''completed'' []))
   \<and> distinct (filteredTasks (mk_state (sample_tasks 1 3) None ''completed'' []))
   \<and> subseq (filteredTasks (mk_state (sample_tasks 1 3) None ''completed'' []))
        (sample_tasks 1 3)"
proof -
  have d: "distinct (tasks (mk_state (sample_tasks 1 3) None ''completed'' []))"
    by code_simp
  with filteredTasks_subseq [of "mk_state (sample_tasks 1 3) None ''completed'' []"]
  show ?thesis by (simp add: mk_state_def)
qed

end
